theory Spec2Isabelle
  imports Complex_Main "HOL-Library.Sublist"
begin

section \<open>The flashcard layout engine of \<^verbatim>\<open>flashcard_generator.py\<close>\<close>

text \<open>
  The class \<^verbatim>\<open>FlashCardGenerator\<close> is embedded method by method. The object is a
  record that is passed in and returned; a method that can raise returns the exception as
  the left summand of a sum, next to the object as the raise leaves it. Python's
  unbounded \<^verbatim>\<open>int\<close> is \<^typ>\<open>int\<close>, \<^verbatim>\<open>str\<close> is \<^typ>\<open>string\<close>.

  Lengths are Python floats in the program. They are embedded as exact rationals
  (\<^typ>\<open>rat\<close>): every finite float is a rational, and \<^verbatim>\<open>int()\<close>, the comparisons and
  \<^verbatim>\<open>min\<close> are exact on them; the rounding of \<^verbatim>\<open>+\<close>, \<^verbatim>\<open>-\<close>, \<^verbatim>\<open>*\<close> and \<^verbatim>\<open>/\<close> and the
  special values (infinities, NaN) are not part of the embedding.
\<close>

subsection \<open>Data\<close>

datatype error = ValueError string | ZeroDivisionError | IndexError

record entry =
  original :: string
  translation :: string
  extra :: string
  index :: string

record generator =
  filename :: string
  page_size :: "rat \<times> rat"
  margins :: "rat \<times> rat \<times> rat \<times> rat"
  cards_per_row :: int
  card_height :: rat
  entries :: "entry list"

text \<open>
  The constants of the rendering library that the class uses: \<^verbatim>\<open>inch = 72.0\<close>,
  \<^verbatim>\<open>cm = inch / 2.54\<close>, \<^verbatim>\<open>mm = cm * 0.1\<close> and \<^verbatim>\<open>A4 = (210 * mm, 297 * mm)\<close>.
\<close>

definition cm :: rat where
  "cm = 72 / (254 / 100)"

definition mm :: rat where
  "mm = cm * (1 / 10)"

definition A4 :: "rat \<times> rat" where
  "A4 = (210 * mm, 297 * mm)"

text \<open>\<^verbatim>\<open>__init__\<close>\<close>

definition init :: generator where
  "init = \<lparr> filename = ''flashcards.pdf'',
            page_size = A4,
            margins = (1 * cm, 1 * cm, 1 * cm, 1 * cm),
            cards_per_row = 2,
            card_height = 5 * cm,
            entries = [] \<rparr>"

text \<open>The margins tuple is \<^verbatim>\<open>(top, right, bottom, left)\<close>; these are its subscripts 0 to 3.\<close>

definition margin_top :: "generator \<Rightarrow> rat" where
  "margin_top g = (case margins g of (t, r, b, l) \<Rightarrow> t)"

definition margin_right :: "generator \<Rightarrow> rat" where
  "margin_right g = (case margins g of (t, r, b, l) \<Rightarrow> r)"

definition margin_bottom :: "generator \<Rightarrow> rat" where
  "margin_bottom g = (case margins g of (t, r, b, l) \<Rightarrow> b)"

definition margin_left :: "generator \<Rightarrow> rat" where
  "margin_left g = (case margins g of (t, r, b, l) \<Rightarrow> l)"

subsection \<open>Setters\<close>

text \<open>
  Each setter returns \<^verbatim>\<open>self\<close>; the embedding returns \<open>Inr ()\<close> and the updated object, or
  \<open>Inl\<close> the exception and the object as it is when the exception is raised.
\<close>

definition set_filename :: "string \<Rightarrow> generator \<Rightarrow> (error + unit) \<times> generator" where
  "set_filename name g = (Inr (), g\<lparr>filename := name\<rparr>)"

definition set_cards_per_row :: "int \<Rightarrow> generator \<Rightarrow> (error + unit) \<times> generator" where
  "set_cards_per_row count g =
     (if count \<le> 0 then (Inl (ValueError ''Cards per row must be greater than 0''), g)
      else (Inr (), g\<lparr>cards_per_row := count\<rparr>))"



definition set_card_height :: "rat \<Rightarrow> generator \<Rightarrow> (error + unit) \<times> generator" where
  "set_card_height height g =
     (if height \<le> 0 then (Inl (ValueError ''Card height must be greater than 0''), g)
      else (Inr (), g\<lparr>card_height := height\<rparr>))"

subsection \<open>Card dimensions\<close>

text \<open>
  \<^verbatim>\<open>int(x)\<close> on a float drops the fractional part of the magnitude and keeps the sign: it
  rounds towards zero.
\<close>

definition py_int :: "rat \<Rightarrow> int" where
  "py_int x = (if x < 0 then - \<lfloor>- x\<rfloor> else \<lfloor>x\<rfloor>)"

text \<open>
  \<^verbatim>\<open>_calculate_card_dimensions\<close>. Both divisions raise \<^verbatim>\<open>ZeroDivisionError\<close> on a zero
  divisor, the one by \<^verbatim>\<open>cards_per_row\<close> first.
\<close>

definition calculate_card_dimensions :: "generator \<Rightarrow> error + (rat \<times> int)" where
  "calculate_card_dimensions g =
     (let page_width = fst (page_size g);
          page_height = snd (page_size g);
          usable_width = page_width - margin_right g - margin_left g;
          usable_height = page_height - margin_top g - margin_bottom g
      in if cards_per_row g = 0 then Inl ZeroDivisionError
         else let card_width = usable_width / of_int (cards_per_row g)
              in if card_height g = 0 then Inl ZeroDivisionError
                 else let cards_per_column = py_int (usable_height / card_height g);
                          max_cards_per_page = cards_per_row g * cards_per_column
                      in Inr (card_width, max_cards_per_page))"

subsection \<open>Markup translation\<close>

text \<open>
  \<^verbatim>\<open>_parse_markdown\<close> applies \<^verbatim>\<open>re.sub\<close> three times, each with a pattern of the shape
  \<^verbatim>\<open>d(.*?)d\<close> for a literal delimiter \<open>d\<close> and a replacement \<^verbatim>\<open>open\1close\<close>.

  \<open>find_close d s\<close> is the lazy group followed by the closing delimiter, matched at the
  start of \<open>s\<close>: the group grows one character at a time, never over a newline (the
  pattern has no DOTALL flag), until the closing delimiter matches. The result is the text
  of the group and the text after the match.
\<close>

definition newline :: char where
  "newline = CHR 0x0A"

fun find_close :: "string \<Rightarrow> string \<Rightarrow> (string \<times> string) option" where
  "find_close d [] = (if d = [] then Some ([], []) else None)"
| "find_close d (c # cs) =
     (if prefix d (c # cs) then Some ([], drop (length d) (c # cs))
      else if c = newline then None
      else map_option (\<lambda>(inner, rest). (c # inner, rest)) (find_close d cs))"

lemma find_close_length:
  "find_close d s = Some (inner, rest) \<Longrightarrow> length rest \<le> length s"
  by (induction s arbitrary: inner) (auto split: if_splits)

text \<open>
  \<open>sub_delim d opn cls s\<close> is \<^verbatim>\<open>re.sub\<close> for such a pattern: it scans from the left, replaces
  the leftmost match and goes on after it; where no match starts, the character is copied.
  The delimiters of the program are not empty, so a match is never empty.
\<close>

function sub_delim :: "string \<Rightarrow> string \<Rightarrow> string \<Rightarrow> string \<Rightarrow> string" where
  "sub_delim d opn cls [] = []"
| "sub_delim d opn cls (c # cs) =
     (if d \<noteq> [] \<and> prefix d (c # cs) then
        (case find_close d (drop (length d) (c # cs)) of
           Some (inner, rest) \<Rightarrow> opn @ inner @ cls @ sub_delim d opn cls rest
         | None \<Rightarrow> c # sub_delim d opn cls cs)
      else c # sub_delim d opn cls cs)"
  by pat_completeness auto
termination
proof (relation "measure (\<lambda>(d, opn, cls, s). length s)")
  fix d opn cls :: string and c cs x2 x y
  assume "d \<noteq> [] \<and> prefix d (c # cs)"
    and "find_close d (drop (length d) (c # cs)) = Some x2"
    and "(x, y) = x2"
  then have "length y \<le> length (drop (length d) (c # cs))" and "d \<noteq> []"
    using find_close_length [of d "drop (length d) (c # cs)" x y] by auto
  then show "((d, opn, cls, y), d, opn, cls, c # cs) \<in> measure (\<lambda>(d, opn, cls, s). length s)"
    by (cases d) auto
qed auto

definition parse_markdown :: "string \<Rightarrow> string" where
  "parse_markdown text =
     (let text1 = sub_delim ''**'' ''<b>'' ''</b>'' text;
          text2 = sub_delim ''*'' ''<i>'' ''</i>'' text1;
          text3 = sub_delim ''__'' ''<u>'' ''</u>'' text2
      in text3)"

subsection \<open>The canvas and the world outside the object\<close>

text \<open>
  The rendering library is outside the repository. Of its canvas the embedding keeps what
  the class relies on: drawing calls append to the code of the current page;
  \<^verbatim>\<open>showPage\<close> closes the current page, whatever is on it, and starts an empty one;
  \<^verbatim>\<open>save\<close> first closes the current page if anything was drawn on it and then writes the
  document to the file. A \<^verbatim>\<open>Frame(...).addFromList(story, canvas)\<close> is kept as one drawing
  call with the frame and the paragraphs given to it; the text layout inside the frame,
  and failures of the library or of the file system, are not part of the embedding.
\<close>

datatype style = title_style | extra_style | normal_style | index_style | translation_style

datatype para = Paragraph string style

text \<open>
  \<open>Frame x1 y1 width height leftPadding bottomPadding rightPadding topPadding\<close>; a padding
  that the call does not give is the library's default, 6.
\<close>

datatype frame = Frame rat rat rat rat rat rat rat rat

datatype draw_op =
    SetStrokeColorRGB rat rat rat
  | Rect rat rat rat rat
  | AddFromList frame "para list"
  | SaveState
  | RestoreState

record canvas =
  canvas_filename :: string
  pagesize :: "rat \<times> rat"
  pages :: "draw_op list list"
  code :: "draw_op list"

type_synonym document = "(rat \<times> rat) \<times> draw_op list list"

record world =
  stdout :: "string list"
  files :: "string \<rightharpoonup> document"

definition Canvas :: "string \<Rightarrow> rat \<times> rat \<Rightarrow> canvas" where
  "Canvas name sz = \<lparr> canvas_filename = name, pagesize = sz, pages = [], code = [] \<rparr>"

definition draw :: "draw_op list \<Rightarrow> canvas \<Rightarrow> canvas" where
  "draw ops c = c\<lparr>code := code c @ ops\<rparr>"

definition showPage :: "canvas \<Rightarrow> canvas" where
  "showPage c = c\<lparr>pages := pages c @ [code c], code := []\<rparr>"

definition save :: "canvas \<Rightarrow> world \<Rightarrow> world" where
  "save c w =
     (let c' = (if code c \<noteq> [] then showPage c else c)
      in w\<lparr>files := (files w)(canvas_filename c' \<mapsto> (pagesize c', pages c'))\<rparr>)"

text \<open>\<^verbatim>\<open>print\<close> appends one item to the standard output.\<close>

definition print :: "string \<Rightarrow> world \<Rightarrow> world" where
  "print line w = w\<lparr>stdout := stdout w @ [line]\<rparr>"

subsection \<open>Entries\<close>

text \<open>\<^verbatim>\<open>add_entry\<close> prints the entry and appends it to the list.\<close>

definition add_entry ::
  "string \<Rightarrow> string \<Rightarrow> string \<Rightarrow> string \<Rightarrow> generator \<Rightarrow> world
     \<Rightarrow> (error + unit) \<times> generator \<times> world" where
  "add_entry orig transl ext idx g w =
     (let w' = print (''Adding entry: original='' @ [CHR 0x27] @ orig @ [CHR 0x27]
                      @ '', translation='' @ [CHR 0x27] @ transl @ [CHR 0x27]
                      @ '', extra='' @ [CHR 0x27] @ ext @ [CHR 0x27]
                      @ '', index='' @ [CHR 0x27] @ idx @ [CHR 0x27] @ [newline, newline]) w
      in (Inr (), g\<lparr>entries := entries g @
            [\<lparr> original = orig, translation = transl, extra = ext, index = idx \<rparr>]\<rparr>, w'))"

text \<open>
  Subscripting a list with an integer: a negative subscript counts from the end, and a
  subscript out of range raises \<^verbatim>\<open>IndexError\<close>.
\<close>

definition py_index :: "'a list \<Rightarrow> int \<Rightarrow> error + 'a" where
  "py_index xs i =
     (if 0 \<le> i \<and> i < int (length xs) then Inr (xs ! nat i)
      else if i < 0 \<and> - int (length xs) \<le> i then Inr (xs ! nat (int (length xs) + i))
      else Inl IndexError)"

text \<open>\<^verbatim>\<open>range(n)\<close>: the integers from 0 below \<open>n\<close>, none when \<open>n \<le> 0\<close>.\<close>

definition py_range :: "int \<Rightarrow> int list" where
  "py_range n = [0..n - 1]"

subsection \<open>Rendering\<close>

text \<open>
  The body of the first \<^verbatim>\<open>for\<close> loop of \<^verbatim>\<open>generate\<close>, after the entry is read: what it
  draws for the entry at position \<open>i\<close> of the current page.
\<close>

definition front_cell :: "generator \<Rightarrow> rat \<Rightarrow> entry \<Rightarrow> int \<Rightarrow> draw_op list" where
  "front_cell g card_width e i =
     (let row = i div cards_per_row g;
          col = i mod cards_per_row g;
          x0 = margin_left g + of_int col * card_width;
          y0 = snd (page_size g) - margin_top g - of_int (row + 1) * card_height g;
          content_margin = (3 / 10) * cm;
          frame_width = card_width - 2 * content_margin;
          frame_height = card_height g - 2 * content_margin;
          frame_x = x0 + content_margin;
          frame_y = y0 + content_margin;
          original_text = parse_markdown (original e);
          original_para = Paragraph original_text title_style;
          front_frame = Frame frame_x frame_y frame_width frame_height 5 6 5 6;
          story = [original_para] @
            (if extra e \<noteq> [] then
               [Paragraph ''<br/>'' normal_style, Paragraph (parse_markdown (extra e)) extra_style]
             else [])
      in [SetStrokeColorRGB (8 / 10) (8 / 10) (8 / 10),
          Rect x0 y0 card_width (card_height g),
          AddFromList front_frame story] @
         (if index e \<noteq> [] then
            [SaveState,
             AddFromList (Frame frame_x frame_y frame_width ((5 / 10) * cm) 6 2 6 6)
               [Paragraph (index e) index_style],
             RestoreState]
          else []))"

text \<open>The body of the second \<^verbatim>\<open>for\<close> loop, for the back of the same entry.\<close>

definition back_cell :: "generator \<Rightarrow> rat \<Rightarrow> entry \<Rightarrow> int \<Rightarrow> draw_op list" where
  "back_cell g card_width e i =
     (let row = i div cards_per_row g;
          col = cards_per_row g - 1 - (i mod cards_per_row g);
          x0 = margin_left g + of_int col * card_width;
          y0 = snd (page_size g) - margin_top g - of_int (row + 1) * card_height g;
          content_margin = (3 / 10) * cm;
          frame_width = card_width - 2 * content_margin;
          frame_height = card_height g - 2 * content_margin;
          frame_x = x0 + content_margin;
          frame_y = y0 + content_margin;
          translation_text = parse_markdown (translation e);
          translation_para = Paragraph translation_text translation_style;
          back_frame = Frame frame_x frame_y frame_width frame_height 5 6 5 6
      in [SetStrokeColorRGB (8 / 10) (8 / 10) (8 / 10),
          Rect x0 y0 card_width (card_height g),
          AddFromList back_frame [translation_para]] @
         (if index e \<noteq> [] then
            [SaveState,
             AddFromList (Frame frame_x frame_y frame_width ((5 / 10) * cm) 6 2 6 6)
               [Paragraph (index e) index_style],
             RestoreState]
          else []))"

text \<open>
  One \<^verbatim>\<open>for i in range(...)\<close> loop of \<^verbatim>\<open>generate\<close>, over the positions still to do: it reads
  the entry at \<^verbatim>\<open>cards_processed + i\<close> and draws the cell.
\<close>

fun render_cells ::
  "(entry \<Rightarrow> int \<Rightarrow> draw_op list) \<Rightarrow> entry list \<Rightarrow> int \<Rightarrow> int list \<Rightarrow> canvas
     \<Rightarrow> error + canvas" where
  "render_cells cell es cards_processed [] c = Inr c"
| "render_cells cell es cards_processed (i # is) c =
     (case py_index es (cards_processed + i) of
        Inl err \<Rightarrow> Inl err
      | Inr e \<Rightarrow> render_cells cell es cards_processed is (draw (cell e i) c))"

text \<open>
  The \<^verbatim>\<open>while\<close> loop of \<^verbatim>\<open>generate\<close>. Its value is \<open>None\<close> when the loop does not end.
\<close>

partial_function (option) pagination_loop ::
  "generator \<Rightarrow> rat \<Rightarrow> int \<Rightarrow> int \<Rightarrow> int \<Rightarrow> canvas \<Rightarrow> (error + canvas) option" where
  "pagination_loop g card_width cards_per_page total_cards cards_processed c =
     (if cards_processed < total_cards then
        (let remaining_cards = total_cards - cards_processed;
             cards_on_current_page = min cards_per_page remaining_cards
         in case render_cells (front_cell g card_width) (entries g) cards_processed
                   (py_range cards_on_current_page) c of
              Inl err \<Rightarrow> Some (Inl err)
            | Inr c1 \<Rightarrow>
                (case render_cells (back_cell g card_width) (entries g) cards_processed
                        (py_range cards_on_current_page) (showPage c1) of
                   Inl err \<Rightarrow> Some (Inl err)
                 | Inr c2 \<Rightarrow>
                     (let cards_processed' = cards_processed + cards_on_current_page
                      in pagination_loop g card_width cards_per_page total_cards cards_processed'
                           (if cards_processed' < total_cards then showPage c2 else c2))))
      else Some (Inr c))"

declare pagination_loop.simps [code]

text \<open>Decimal digits of a natural number, as \<^verbatim>\<open>str\<close> gives them.\<close>

fun str_nat :: "nat \<Rightarrow> string" where
  "str_nat n =
     (if n < 10 then [char_of (48 + n)]
      else str_nat (n div 10) @ [char_of (48 + n mod 10)])"

text \<open>
  \<^verbatim>\<open>generate\<close>. The method reads the object and never assigns to it. An exception leaves
  the canvas unsaved. The local \<^verbatim>\<open>rows_per_page\<close> and the paragraph styles' fonts are not
  used by the loop and are left out; the division for \<^verbatim>\<open>rows_per_page\<close> cannot raise, since
  \<^verbatim>\<open>_calculate_card_dimensions\<close> has divided by \<^verbatim>\<open>cards_per_row\<close> before.
\<close>

definition generate :: "generator \<Rightarrow> world \<Rightarrow> ((error + unit) \<times> generator \<times> world) option" where
  "generate g w =
     (if entries g = [] then
        Some (Inr (), g, print ''Warning: No flashcard entries to generate'' w)
      else
        (case calculate_card_dimensions g of
           Inl err \<Rightarrow> Some (Inl err, g, w)
         | Inr (card_width, cards_per_page) \<Rightarrow>
             (let c = Canvas (filename g) (page_size g);
                  total_cards = int (length (entries g));
                  cards_processed = 0
              in case pagination_loop g card_width cards_per_page total_cards cards_processed c of
                   None \<Rightarrow> None
                 | Some (Inl err) \<Rightarrow> Some (Inl err, g, w)
                 | Some (Inr c') \<Rightarrow>
                     Some (Inr (), g,
                       print ''For correct printing: Use double-sided printing, flip on short edge.''
                         (print (''Generated '' @ str_nat (length (entries g))
                                 @ '' flashcards in '' @ [CHR 0x27] @ filename g @ [CHR 0x27])
                            (save c' w))))))"

text \<open>The \<^verbatim>\<open>for\<close> loop of \<^verbatim>\<open>generate_pdf\<close> over the tuples.\<close>

fun add_entries ::
  "(string \<times> string \<times> string \<times> string) list \<Rightarrow> generator \<Rightarrow> world \<Rightarrow> generator \<times> world" where
  "add_entries [] g w = (g, w)"
| "add_entries ((front, back, ext, idx) # flashcards) g w =
     (case add_entry front back ext idx g w of (r, g', w') \<Rightarrow> add_entries flashcards g' w')"

text \<open>\<^verbatim>\<open>generate_pdf\<close>, which returns the output path.\<close>

definition generate_pdf ::
  "(string \<times> string \<times> string \<times> string) list \<Rightarrow> string \<Rightarrow> generator \<Rightarrow> world
     \<Rightarrow> ((error + string) \<times> generator \<times> world) option" where
  "generate_pdf flashcards output_path g w =
     (let g1 = g\<lparr>entries := []\<rparr>;
          g2 = snd (set_filename output_path g1);
          (g3, w3) = add_entries flashcards g2 w
      in case generate g3 w3 of
           None \<Rightarrow> None
         | Some (Inl err, g4, w4) \<Rightarrow> Some (Inl err, g4, w4)
         | Some (Inr u, g4, w4) \<Rightarrow> Some (Inr output_path, g4, w4))"

subsection \<open>The pages a document is expected to have\<close>

text \<open>
  The specification partitions the entries into groups of at most \<open>P\<close> (cards per page)
  entries, in order, and gives each group a front page followed by a back page. The
  following definitions say this in the specification's words; they are compared with
  \<open>generate\<close> below. Group \<open>j\<close> starts at entry \<open>j * P\<close>; there are \<open>ceil (N / P)\<close> groups for
  \<open>N\<close> entries; a page is the drawing of its cells one after the other.
\<close>

definition front_cells :: "generator \<Rightarrow> rat \<Rightarrow> int \<Rightarrow> int \<Rightarrow> draw_op list list" where
  "front_cells g cw p n = map (\<lambda>i. front_cell g cw (entries g ! nat (p + i)) i) (py_range n)"

definition back_cells :: "generator \<Rightarrow> rat \<Rightarrow> int \<Rightarrow> int \<Rightarrow> draw_op list list" where
  "back_cells g cw p n = map (\<lambda>i. back_cell g cw (entries g ! nat (p + i)) i) (py_range n)"

definition group_count :: "nat \<Rightarrow> int \<Rightarrow> nat" where
  "group_count N P = nat \<lceil>rat_of_nat N / rat_of_int P\<rceil>"

definition group_size :: "nat \<Rightarrow> int \<Rightarrow> nat \<Rightarrow> int" where
  "group_size N P j = min P (int N - int j * P)"

definition group_pages :: "generator \<Rightarrow> rat \<Rightarrow> int \<Rightarrow> nat \<Rightarrow> draw_op list list" where
  "group_pages g cw P j =
     [concat (front_cells g cw (int j * P) (group_size (length (entries g)) P j)),
      concat (back_cells g cw (int j * P) (group_size (length (entries g)) P j))]"

definition expected_pages :: "generator \<Rightarrow> rat \<Rightarrow> int \<Rightarrow> draw_op list list" where
  "expected_pages g cw P =
     concat (map (group_pages g cw P) [0..<group_count (length (entries g)) P])"

subsection \<open>Example objects\<close>

text \<open>
  A world with nothing printed and no files; a deck of five entries on a 10 by 10 page
  without margins, two cards of height 4 per row, so four cards per page; the default
  object after \<^verbatim>\<open>set_card_height(30 * cm)\<close> and one \<^verbatim>\<open>add_entry\<close>, whose card is taller than
  the usable height of the A4 page; and a page whose margins exceed its height.
\<close>

definition empty_world :: world where
  "empty_world = \<lparr> stdout = [], files = Map.empty \<rparr>"

definition small_deck :: generator where
  "small_deck = init\<lparr> page_size := (10, 10), margins := (0, 0, 0, 0), card_height := 4,
     entries := [\<lparr> original = ''q1'', translation = ''a1'', extra = '''', index = '''' \<rparr>,
                 \<lparr> original = ''q2'', translation = ''a2'', extra = ''hint'', index = ''2'' \<rparr>,
                 \<lparr> original = ''q3'', translation = ''a3'', extra = '''', index = '''' \<rparr>,
                 \<lparr> original = ''q4'', translation = ''a4'', extra = '''', index = '''' \<rparr>,
                 \<lparr> original = ''q5'', translation = ''a5'', extra = '''', index = '''' \<rparr>] \<rparr>"

definition tall_card_deck :: generator where
  "tall_card_deck =
     fst (snd (add_entry ''q'' ''a'' '''' '''' (snd (set_card_height (30 * cm) init)) empty_world))"


definition two_cards :: "(string \<times> string \<times> string \<times> string) list" where
  "two_cards = [(''front 1'', ''back 1'', '''', ''1''), (''front 2'', ''back 2'', ''note'', ''2'')]"

subsection \<open>What \<^verbatim>\<open>generate_pdf\<close> loads\<close>

text \<open>
  The entry that \<^verbatim>\<open>add_entry\<close> stores for a tuple, the line it prints for it, and the object
  after \<^verbatim>\<open>generate_pdf\<close> has cleared the entries, set the file name and added the tuples.
\<close>

definition loaded_entry :: "string \<times> string \<times> string \<times> string \<Rightarrow> entry" where
  "loaded_entry t =
     (case t of (front, bk, ext, idx) \<Rightarrow>
        \<lparr> original = front, translation = bk, extra = ext, index = idx \<rparr>)"

definition entry_line :: "string \<times> string \<times> string \<times> string \<Rightarrow> string" where
  "entry_line t =
     (case t of (front, bk, ext, idx) \<Rightarrow>
        ''Adding entry: original='' @ [CHR 0x27] @ front @ [CHR 0x27]
          @ '', translation='' @ [CHR 0x27] @ bk @ [CHR 0x27]
          @ '', extra='' @ [CHR 0x27] @ ext @ [CHR 0x27]
          @ '', index='' @ [CHR 0x27] @ idx @ [CHR 0x27] @ [newline, newline])"

definition reloaded :: "(string \<times> string \<times> string \<times> string) list \<Rightarrow> string \<Rightarrow> generator \<Rightarrow> generator" where
  "reloaded flashcards output_path g = g\<lparr>entries := map loaded_entry flashcards, filename := output_path\<rparr>"

section \<open>Properties\<close>

subsection \<open>The loop when a page holds no card\<close>

lemma render_cells_empty: "render_cells cell es p (py_range n) c = Inr c" if "n \<le> 0"
  using that by (simp add: py_range_def)

lemmas pagination_loop_induct = pagination_loop.raw_induct [rotated 1, consumes 1, case_names step]

lemma pagination_loop_diverges_aux:
  assumes "pagination_loop g cw cpp N p c = Some y"
  shows "\<not> (cpp \<le> 0 \<and> p < N)"
  using assms
proof (induction g cw cpp N p c y rule: pagination_loop_induct)
  case (step loop g cw cpp N p c y)
  show ?case
  proof
    assume a: "cpp \<le> 0 \<and> p < N"
    then have n: "min cpp (N - p) \<le> 0" by simp
    from a have lt: "p + min cpp (N - p) < N" by simp
    from step(2) a n lt have "loop g cw cpp N (p + min cpp (N - p)) (showPage (showPage c)) = Some y"
      by (simp add: render_cells_empty Let_def)
    then have "\<not> (cpp \<le> 0 \<and> p + min cpp (N - p) < N)" by (rule step(1))
    with a lt show False by blast
  qed
qed

lemma pagination_loop_diverges:
  "cpp \<le> 0 \<Longrightarrow> p < N \<Longrightarrow> pagination_loop g cw cpp N p c = None"
  using pagination_loop_diverges_aux [of g cw cpp N p c] by (cases "pagination_loop g cw cpp N p c") auto

lemma generate_diverges:
  assumes "entries g \<noteq> []" and "calculate_card_dimensions g = Inr (cw, P)" and "P \<le> 0"
  shows "generate g w = None"
proof -
  have "0 < int (length (entries g))" using assms(1) by simp
  from pagination_loop_diverges [OF assms(3) this]
  show ?thesis using assms(1,2) by (simp add: generate_def)
qed

subsection \<open>The loop when a page holds at least one card\<close>

lemma group_count_less_iff:
  assumes "0 < P"
  shows "j < group_count N P \<longleftrightarrow> int j * P < int N"
proof -
  have "j < group_count N P \<longleftrightarrow> int j < \<lceil>rat_of_nat N / rat_of_int P\<rceil>"
    by (simp add: group_count_def zless_nat_eq_int_zless)
  also have "\<dots> \<longleftrightarrow> rat_of_int (int j) < rat_of_nat N / rat_of_int P"
    by (rule less_ceiling_iff)
  also have "\<dots> \<longleftrightarrow> rat_of_int (int j) * rat_of_int P < rat_of_nat N"
    using assms by (simp add: pos_less_divide_eq)
  also have "\<dots> \<longleftrightarrow> rat_of_int (int j * P) < rat_of_int (int N)"
    by simp
  also have "\<dots> \<longleftrightarrow> int j * P < int N"
    by (rule of_int_less_iff)
  finally show ?thesis .
qed

lemma draw_draw: "draw b (draw a c) = draw (a @ b) c"
  by (simp add: draw_def)

lemma draw_Nil: "draw [] c = c"
  by (simp add: draw_def)

lemma render_cells_in_range:
  assumes "\<forall>i\<in>set js. 0 \<le> p + i \<and> p + i < int (length es)"
  shows "render_cells cell es p js c = Inr (draw (concat (map (\<lambda>i. cell (es ! nat (p + i)) i) js)) c)"
  using assms
proof (induction js arbitrary: c)
  case Nil
  show ?case by (simp add: draw_Nil)
next
  case (Cons i js)
  then have "py_index es (p + i) = Inr (es ! nat (p + i))"
    by (simp add: py_index_def)
  with Cons show ?case by (simp add: draw_draw)
qed

lemma set_py_range: "set (py_range n) = {i. 0 \<le> i \<and> i < n}"
  by (auto simp: py_range_def)

lemma render_front_cells:
  assumes "0 \<le> p" "p + n \<le> int (length (entries g))"
  shows "render_cells (front_cell g cw) (entries g) p (py_range n) c = Inr (draw (concat (front_cells g cw p n)) c)"
  unfolding front_cells_def
  by (rule render_cells_in_range) (use assms in \<open>auto simp: set_py_range\<close>)

lemma render_back_cells:
  assumes "0 \<le> p" "p + n \<le> int (length (entries g))"
  shows "render_cells (back_cell g cw) (entries g) p (py_range n) c = Inr (draw (concat (back_cells g cw p n)) c)"
  unfolding back_cells_def
  by (rule render_cells_in_range) (use assms in \<open>auto simp: set_py_range\<close>)

lemma back_cell_not_Nil: "back_cell g cw e i \<noteq> []"
  by (simp add: back_cell_def Let_def)

lemma py_range_pos: "0 < n \<Longrightarrow> py_range n = 0 # [1..n - 1]"
  by (simp add: py_range_def upto_rec1)

lemma back_cells_concat_not_Nil: "0 < n \<Longrightarrow> concat (back_cells g cw p n) \<noteq> []"
  by (simp add: back_cells_def py_range_pos back_cell_not_Nil)

lemma pagination_loop_step:
  assumes P: "0 < P" and p0: "0 \<le> p" and pN: "p < int (length (entries g))"
  shows "pagination_loop g cw P (int (length (entries g))) p c =
         pagination_loop g cw P (int (length (entries g))) (p + min P (int (length (entries g)) - p))
           (let c2 = draw (concat (back_cells g cw p (min P (int (length (entries g)) - p))))
                       (showPage (draw (concat (front_cells g cw p (min P (int (length (entries g)) - p)))) c))
            in if p + min P (int (length (entries g)) - p) < int (length (entries g)) then showPage c2 else c2)"
proof -
  let ?N = "int (length (entries g))"
  let ?n = "min P (?N - p)"
  have le: "p + ?n \<le> ?N" by simp
  show ?thesis
    apply (subst pagination_loop.simps)
    apply (simp only: pN if_True Let_def render_front_cells [OF p0 le] render_back_cells [OF p0 le] sum.case)
    done
qed

lemma pagination_loop_exit:
  "\<not> p < N \<Longrightarrow> pagination_loop g cw P N p c = Some (Inr c)"
  by (subst pagination_loop.simps) simp

lemma pagination_loop_groups:
  assumes P: "0 < P" and j: "j < group_count (length (entries g)) P" and c: "code c = []"
  shows "\<exists>c'. pagination_loop g cw P (int (length (entries g))) (int j * P) c = Some (Inr c')
           \<and> pages c' @ [code c'] =
               pages c @ concat (map (group_pages g cw P) [j..<group_count (length (entries g)) P])
           \<and> code c' \<noteq> [] \<and> canvas_filename c' = canvas_filename c \<and> pagesize c' = pagesize c"
  using j c
proof (induction "group_count (length (entries g)) P - j" arbitrary: j c)
  case 0
  then show ?case by simp
next
  case (Suc d)
  let ?N = "int (length (entries g))"
  let ?G = "group_count (length (entries g)) P"
  let ?p = "int j * P"
  let ?n = "min P (?N - ?p)"
  let ?fpage = "concat (front_cells g cw ?p ?n)"
  let ?bpage = "concat (back_cells g cw ?p ?n)"
  let ?c2 = "draw ?bpage (showPage (draw ?fpage c))"
  from Suc.prems have pN: "?p < ?N" using group_count_less_iff [OF P] by simp
  have p0: "0 \<le> ?p" using P by simp
  from pN P have n: "0 < ?n" by simp
  have size: "group_size (length (entries g)) P j = ?n" by (simp add: group_size_def)
  have gp: "group_pages g cw P j = [?fpage, ?bpage]"
    by (simp add: group_pages_def size)
  have Sucj: "int (Suc j) * P = ?p + P" by (simp add: algebra_simps)
  have upt: "[j..<?G] = j # [Suc j..<?G]" using Suc.prems by (simp add: upt_conv_Cons)
  have c2: "pages ?c2 = pages c @ [?fpage]" "code ?c2 = ?bpage"
    "canvas_filename ?c2 = canvas_filename c" "pagesize ?c2 = pagesize c"
    using Suc.prems(2) by (simp_all add: draw_def showPage_def)
  have step: "pagination_loop g cw P ?N ?p c =
      pagination_loop g cw P ?N (?p + ?n) (if ?p + ?n < ?N then showPage ?c2 else ?c2)"
    using pagination_loop_step [OF P p0 pN, of cw c] by (simp add: Let_def)
  show ?case
  proof (cases "Suc j < ?G")
    case True
    then have lt: "int (Suc j) * P < ?N" using group_count_less_iff [OF P] by simp
    then have neq: "?n = P" unfolding Sucj by linarith
    have next_p: "?p + ?n = int (Suc j) * P" unfolding Sucj neq ..
    have d: "d = ?G - Suc j" using Suc.hyps(2) by simp
    have code3: "code (showPage ?c2) = []" by (simp add: showPage_def)
    from Suc.hyps(1) [OF d True code3] obtain c' where
      c': "pagination_loop g cw P ?N (int (Suc j) * P) (showPage ?c2) = Some (Inr c')"
        "pages c' @ [code c'] = pages (showPage ?c2) @ concat (map (group_pages g cw P) [Suc j..<?G])"
        "code c' \<noteq> []" "canvas_filename c' = canvas_filename (showPage ?c2)"
        "pagesize c' = pagesize (showPage ?c2)"
      by blast
    have "pagination_loop g cw P ?N ?p c = Some (Inr c')"
      using step lt c'(1) by (simp only: next_p if_True)
    moreover have "pages c' @ [code c'] = pages c @ concat (map (group_pages g cw P) [j..<?G])"
      using c'(2) c2 by (simp add: upt gp showPage_def)
    moreover have "canvas_filename c' = canvas_filename c" "pagesize c' = pagesize c"
      using c'(4,5) c2 by (simp_all add: showPage_def)
    ultimately show ?thesis using c'(3) by blast
  next
    case False
    then have ge: "\<not> int (Suc j) * P < ?N" using group_count_less_iff [OF P] by simp
    then have neq: "?n = ?N - ?p" unfolding Sucj by linarith
    have next_p: "?p + ?n = ?N" unfolding neq by simp
    from False Suc.prems(1) have G: "?G = Suc j" by simp
    have "pagination_loop g cw P ?N ?p c = Some (Inr ?c2)"
      using step by (simp only: next_p less_irrefl if_False pagination_loop_exit not_False_eq_True)
    moreover have "pages ?c2 @ [code ?c2] = pages c @ concat (map (group_pages g cw P) [j..<?G])"
      using c2 by (simp add: G gp)
    moreover have "code ?c2 \<noteq> []"
      using c2(2) back_cells_concat_not_Nil [OF n] by simp
    ultimately show ?thesis using c2(3,4) by blast
  qed
qed




lemma generate_document:
  assumes "entries g \<noteq> []" and "calculate_card_dimensions g = Inr (cw, P)" and "0 < P"
  shows "generate g w =
    Some (Inr (), g,
      w\<lparr>stdout := stdout w @
           [''Generated '' @ str_nat (length (entries g)) @ '' flashcards in ''
              @ [CHR 0x27] @ filename g @ [CHR 0x27],
            ''For correct printing: Use double-sided printing, flip on short edge.''],
        files := (files w)(filename g \<mapsto> (page_size g, expected_pages g cw P))\<rparr>)"
proof -
  let ?N = "length (entries g)"
  let ?c = "Canvas (filename g) (page_size g)"
  have "int 0 * P < int ?N" using assms(1) by simp
  then have G: "0 < group_count ?N P" using group_count_less_iff [OF assms(3), of 0 ?N] by simp
  have "code ?c = []" by (simp add: Canvas_def)
  from pagination_loop_groups [OF assms(3) G this, of cw] obtain c' where
    c': "pagination_loop g cw P (int ?N) 0 ?c = Some (Inr c')"
      "pages c' @ [code c'] = expected_pages g cw P"
      "code c' \<noteq> []" "canvas_filename c' = filename g" "pagesize c' = page_size g"
    by (auto simp: expected_pages_def Canvas_def)
  have "save c' w = w\<lparr>files := (files w)(filename g \<mapsto> (page_size g, expected_pages g cw P))\<rparr>"
    using c'(2-5) by (simp add: save_def showPage_def)
  then show ?thesis
    using assms(1,2) c'(1) by (simp add: generate_def print_def)
qed


subsection \<open>Cells of a page\<close>












lemma tall_card_deck_dimensions: "calculate_card_dimensions tall_card_deck = Inr (34200 / 127, 0)"
  by code_simp



lemma two_cards_dimensions:
  "calculate_card_dimensions (reloaded two_cards ''deck.pdf'' small_deck) = Inr (5, 4)"
  by code_simp

subsection \<open>Markup translation\<close>












subsection \<open>Loading a deck\<close>

lemma add_entries_eq:
  "add_entries flashcards g w =
     (g\<lparr>entries := entries g @ map loaded_entry flashcards\<rparr>,
      w\<lparr>stdout := stdout w @ map entry_line flashcards\<rparr>)"
proof (induction flashcards arbitrary: g w)
  case Nil
  show ?case by simp
next
  case (Cons t flashcards)
  obtain front bk ext idx where t: "t = (front, bk, ext, idx)" by (cases t)
  show ?case
    by (simp add: t Cons.IH add_entry_def print_def loaded_entry_def entry_line_def)
qed

lemma generate_same_object:
  assumes "generate g w = Some (r, g', w')"
  shows "g' = g"
proof (cases "entries g = []")
  case True
  with assms show ?thesis by (simp add: generate_def)
next
  case False
  show ?thesis
  proof (cases "calculate_card_dimensions g")
    case (Inl err)
    with assms False show ?thesis by (simp add: generate_def)
  next
    case (Inr dims)
    obtain cw P where dims: "dims = (cw, P)" by (cases dims)
    define loop where
      "loop = pagination_loop g cw P (int (length (entries g))) 0 (Canvas (filename g) (page_size g))"
    define w_saved where
      "w_saved = (\<lambda>c'. print ''For correct printing: Use double-sided printing, flip on short edge.''
                (print (''Generated '' @ str_nat (length (entries g))
                        @ '' flashcards in '' @ [CHR 0x27] @ filename g @ [CHR 0x27])
                   (save c' w)))"
    from False Inr dims have "generate g w =
      (case loop of None \<Rightarrow> None
        | Some (Inl err) \<Rightarrow> Some (Inl err, g, w)
        | Some (Inr c') \<Rightarrow> Some (Inr (), g, w_saved c'))"
      unfolding loop_def w_saved_def by (simp add: generate_def)
    with assms have res:
      "(case loop of None \<Rightarrow> None
        | Some (Inl err) \<Rightarrow> Some (Inl err, g, w)
        | Some (Inr c') \<Rightarrow> Some (Inr (), g, w_saved c')) = Some (r, g', w')"
      by simp
    show ?thesis
    proof (cases loop)
      case None
      with res show ?thesis by simp
    next
      case (Some out)
      with res show ?thesis by (cases out) simp_all
    qed
  qed
qed

lemma add_entries_reloaded:
  "add_entries flashcards (snd (set_filename output_path (g\<lparr>entries := []\<rparr>))) w =
     (reloaded flashcards output_path g, w\<lparr>stdout := stdout w @ map entry_line flashcards\<rparr>)"
  by (simp add: add_entries_eq set_filename_def reloaded_def)

lemma generate_pdf_eq:
  "generate_pdf flashcards output_path g w =
     (case generate (reloaded flashcards output_path g)
             (w\<lparr>stdout := stdout w @ map entry_line flashcards\<rparr>) of
        None \<Rightarrow> None
      | Some (Inl err, g4, w4) \<Rightarrow> Some (Inl err, g4, w4)
      | Some (Inr u, g4, w4) \<Rightarrow> Some (Inr output_path, g4, w4))"
  by (simp only: generate_pdf_def Let_def add_entries_reloaded prod.case)

lemma reloaded_forgets:
  "reloaded flashcards output_path (g\<lparr>entries := es, filename := f\<rparr>) = reloaded flashcards output_path g"
  by (simp add: reloaded_def)

subsection \<open>Exceptions of \<open>generate\<close>\<close>




section \<open>The claims\<close>





text \<open>
  C3. The claim is that a configuration with zero cards per page is rejected and that
  \<open>generate\<close> returns for every configuration the setters allow. The program does not do
  this: the default object with \<^verbatim>\<open>set_card_height(30 * cm)\<close>, which the setter accepts, and
  one entry has zero cards per page, and \<open>generate\<close> does not return on it.
\<close>

theorem tall_card_never_returns:
  "fst (set_card_height (30 * cm) init) = Inr ()
   \<and> card_height tall_card_deck = 30 * cm
   \<and> length (entries tall_card_deck) = 1
   \<and> calculate_card_dimensions tall_card_deck = Inr (34200 / 127, 0)
   \<and> generate tall_card_deck w = None"
proof -
  have e: "entries tall_card_deck \<noteq> []"
    by (simp add: tall_card_deck_def add_entry_def set_card_height_def)
  have "generate tall_card_deck w = None"
    by (rule generate_diverges [OF e tall_card_deck_dimensions]) simp
  moreover have "fst (set_card_height (30 * cm) init) = Inr ()"
    by (simp add: set_card_height_def cm_def)
  moreover have "card_height tall_card_deck = 30 * cm"
    by (simp add: tall_card_deck_def add_entry_def set_card_height_def cm_def)
  moreover have "length (entries tall_card_deck) = 1"
    by (simp add: tall_card_deck_def add_entry_def set_card_height_def init_def cm_def)
  ultimately show ?thesis using tall_card_deck_dimensions by simp
qed






text \<open>
  C6. \<^verbatim>\<open>set_cards_per_row\<close> with a count that is not positive, and \<^verbatim>\<open>set_card_height\<close> with a
  height that is not positive, raise \<^verbatim>\<open>ValueError\<close> and leave the object as it was.
\<close>

theorem setters_reject_non_positive:
  "(count \<le> 0 \<longrightarrow>
      set_cards_per_row count g = (Inl (ValueError ''Cards per row must be greater than 0''), g))
   \<and> (height \<le> 0 \<longrightarrow>
      set_card_height height g = (Inl (ValueError ''Card height must be greater than 0''), g))"
  by (simp add: set_cards_per_row_def set_card_height_def)

theorem setters_reject_non_positive_witness:
  "(0::int) \<le> 0 \<and> (- 1::rat) \<le> 0
   \<and> set_cards_per_row 0 init = (Inl (ValueError ''Cards per row must be greater than 0''), init)
   \<and> set_card_height (- 1) init = (Inl (ValueError ''Card height must be greater than 0''), init)"
  using setters_reject_non_positive [of 0 init "- 1"] by simp

text \<open>
  C7. With no entries, \<open>generate\<close> prints the warning and returns without an exception; no
  file is written and the object is unchanged, whatever the configuration.
\<close>

theorem generate_empty:
  assumes "entries g = []"
  shows "\<exists>w'. generate g w = Some (Inr (), g, w')
           \<and> stdout w' = stdout w @ [''Warning: No flashcard entries to generate'']
           \<and> files w' = files w"
  using assms by (simp add: generate_def print_def)

theorem generate_empty_witness:
  "entries init = []
   \<and> (\<exists>w'. generate init empty_world = Some (Inr (), init, w')
           \<and> stdout w' = stdout empty_world @ [''Warning: No flashcard entries to generate'']
           \<and> files w' = files empty_world)"
proof -
  have h: "entries init = []" by (simp add: init_def)
  from generate_empty [OF h, of empty_world] h show ?thesis by (intro conjI)
qed





text \<open>
  C9. When \<^verbatim>\<open>generate_pdf\<close> returns, the object has the given file name and exactly the
  entries of the given tuples, in order; the call is \<open>generate\<close> on that object after the
  lines of the added entries are printed; and the call gives the same result whatever
  entries and file name the object had before.
\<close>

theorem generate_pdf_reloads:
  assumes "generate_pdf flashcards output_path g w = Some (r, g', w')"
  shows "g' = g\<lparr>entries := map loaded_entry flashcards, filename := output_path\<rparr>
         \<and> entries g' = map loaded_entry flashcards \<and> filename g' = output_path
         \<and> (\<exists>r0. generate (g\<lparr>entries := map loaded_entry flashcards, filename := output_path\<rparr>)
                    (w\<lparr>stdout := stdout w @ map entry_line flashcards\<rparr>) = Some (r0, g', w')
                 \<and> r = (case r0 of Inl err \<Rightarrow> Inl err | Inr u \<Rightarrow> Inr output_path))
         \<and> (\<forall>es f. generate_pdf flashcards output_path (g\<lparr>entries := es, filename := f\<rparr>) w
                      = Some (r, g', w'))"
proof -
  let ?g = "reloaded flashcards output_path g"
  let ?w = "w\<lparr>stdout := stdout w @ map entry_line flashcards\<rparr>"
  from assms obtain r0 where
    gen: "generate ?g ?w = Some (r0, g', w')"
    and r: "r = (case r0 of Inl err \<Rightarrow> Inl err | Inr u \<Rightarrow> Inr output_path)"
    unfolding generate_pdf_eq by (auto split: option.splits sum.splits prod.splits)
  from generate_same_object [OF gen] have g': "g' = ?g" .
  have indep: "generate_pdf flashcards output_path (g\<lparr>entries := es, filename := f\<rparr>) w
                 = Some (r, g', w')" for es f
    using assms unfolding generate_pdf_eq reloaded_forgets .
  have "entries ?g = map loaded_entry flashcards" "filename ?g = output_path"
    by (simp_all add: reloaded_def)
  with gen r indep show ?thesis unfolding g' by (auto simp: reloaded_def)
qed

theorem generate_pdf_reloads_witness:
  "\<exists>w'. generate_pdf two_cards ''deck.pdf'' small_deck empty_world
          = Some (Inr ''deck.pdf'', small_deck\<lparr>entries := map loaded_entry two_cards, filename := ''deck.pdf''\<rparr>, w')
        \<and> entries (small_deck\<lparr>entries := map loaded_entry two_cards, filename := ''deck.pdf''\<rparr>)
            = map loaded_entry two_cards
        \<and> (\<forall>es f. generate_pdf two_cards ''deck.pdf'' (small_deck\<lparr>entries := es, filename := f\<rparr>) empty_world
              = Some (Inr ''deck.pdf'', small_deck\<lparr>entries := map loaded_entry two_cards, filename := ''deck.pdf''\<rparr>, w'))"
proof -
  let ?g = "reloaded two_cards ''deck.pdf'' small_deck"
  let ?w = "empty_world\<lparr>stdout := stdout empty_world @ map entry_line two_cards\<rparr>"
  have ne: "entries ?g \<noteq> []" by (simp add: reloaded_def two_cards_def)
  have P: "(0::int) < 4" by simp
  from generate_document [OF ne two_cards_dimensions P, of ?w]
  obtain w' where gen: "generate ?g ?w = Some (Inr (), ?g, w')" by blast
  then have h: "generate_pdf two_cards ''deck.pdf'' small_deck empty_world = Some (Inr ''deck.pdf'', ?g, w')"
    by (simp only: generate_pdf_eq option.case prod.case sum.case)
  from generate_pdf_reloads [OF h] h show ?thesis
    unfolding reloaded_def by blast
qed

end
